theory Spec2Isabelle
  imports Complex_Main
begin

section \<open>Tensors\<close>

text \<open>
  A tensor is its shape together with its entries, read by index. Rank 2 is the shape
  of label ids and masks (batch, sequence); rank 3 is the shape of embeddings and
  logits (batch, sequence, feature). Entries of floating-point tensors are taken in
  the reals: rounding, overflow and nan are outside the model.
\<close>

datatype error = NotImplementedError | TypeError | AttributeError | RuntimeError | IndexError

record 'a tensor2 =
  nrow :: nat
  ncol :: nat
  at2 :: "nat \<Rightarrow> nat \<Rightarrow> 'a"

record 'a tensor3 =
  nbatch :: nat
  nseq :: nat
  nfeat :: nat
  at3 :: "nat \<Rightarrow> nat \<Rightarrow> nat \<Rightarrow> 'a"

text \<open>
  Broadcasting of one dimension: two sizes are compatible when they are equal or one
  of them is 1; a dimension of size 1 is read at index 0 wherever the result is read.
\<close>

definition bdim :: "nat \<Rightarrow> nat \<Rightarrow> nat option" where
  "bdim m n = (if m = n then Some m else if m = 1 then Some n else if n = 1 then Some m else None)"

definition bidx :: "nat \<Rightarrow> nat \<Rightarrow> nat" where
  "bidx m i = (if m = 1 then 0 else i)"

text \<open>An elementwise binary operation on two tensors; incompatible shapes raise.\<close>

definition broadcast2 :: "('a \<Rightarrow> 'b \<Rightarrow> 'c) \<Rightarrow> 'a tensor2 \<Rightarrow> 'b tensor2 \<Rightarrow> error + 'c tensor2" where
  "broadcast2 f a b =
     (case bdim (nrow a) (nrow b) of
        None \<Rightarrow> Inl RuntimeError
      | Some p \<Rightarrow>
          (case bdim (ncol a) (ncol b) of
             None \<Rightarrow> Inl RuntimeError
           | Some q \<Rightarrow>
               Inr \<lparr>nrow = p, ncol = q,
                    at2 = (\<lambda>i j. f (at2 a (bidx (nrow a) i) (bidx (ncol a) j))
                                    (at2 b (bidx (nrow b) i) (bidx (ncol b) j)))\<rparr>))"

definition broadcast3 :: "('a \<Rightarrow> 'b \<Rightarrow> 'c) \<Rightarrow> 'a tensor3 \<Rightarrow> 'b tensor3 \<Rightarrow> error + 'c tensor3" where
  "broadcast3 f a b =
     (case bdim (nbatch a) (nbatch b) of
        None \<Rightarrow> Inl RuntimeError
      | Some p \<Rightarrow>
          (case bdim (nseq a) (nseq b) of
             None \<Rightarrow> Inl RuntimeError
           | Some q \<Rightarrow>
               (case bdim (nfeat a) (nfeat b) of
                  None \<Rightarrow> Inl RuntimeError
                | Some r \<Rightarrow>
                    Inr \<lparr>nbatch = p, nseq = q, nfeat = r,
                         at3 = (\<lambda>i j k.
                           f (at3 a (bidx (nbatch a) i) (bidx (nseq a) j) (bidx (nfeat a) k))
                             (at3 b (bidx (nbatch b) i) (bidx (nseq b) j) (bidx (nfeat b) k)))\<rparr>)))"

text \<open>An elementwise operation with a scalar (\<open>x / T\<close>, \<open>x * T\<close>).\<close>

definition map3 :: "('a \<Rightarrow> 'b) \<Rightarrow> 'a tensor3 \<Rightarrow> 'b tensor3" where
  "map3 f x = \<lparr>nbatch = nbatch x, nseq = nseq x, nfeat = nfeat x,
               at3 = (\<lambda>i j k. f (at3 x i j k))\<rparr>"

text \<open>
  Label ids are 64-bit signed integers, and a mask multiplied with them is promoted to
  that type (a boolean mask counts as 0 and 1). An entry is an integer from \<open>- 2^63\<close> up
  to \<open>2^63 - 1\<close>, and a product that leaves this range wraps around.
\<close>

definition wrap64 :: "int \<Rightarrow> int" where
  "wrap64 z = (z + 2 ^ 63) mod 2 ^ 64 - 2 ^ 63"

text \<open>\<open>targets * mask\<close> on 64-bit integer tensors.\<close>

definition mul2 :: "int tensor2 \<Rightarrow> int tensor2 \<Rightarrow> error + int tensor2" where
  "mul2 a b = broadcast2 (\<lambda>x y. wrap64 (x * y)) a b"

text \<open>\<open>mask.unsqueeze(-1)\<close>: a last dimension of size 1 is added.\<close>

definition unsqueeze_last :: "'a tensor2 \<Rightarrow> 'a tensor3" where
  "unsqueeze_last t = \<lparr>nbatch = nrow t, nseq = ncol t, nfeat = 1, at3 = (\<lambda>i j k. at2 t i j)\<rparr>"

text \<open>\<open>x * mask.unsqueeze(-1)\<close>: a real tensor times an integer mask.\<close>

definition mul_mask :: "real tensor3 \<Rightarrow> int tensor2 \<Rightarrow> error + real tensor3" where
  "mul_mask x mask' = broadcast3 (\<lambda>v k. v * real_of_int k) x (unsqueeze_last mask')"

text \<open>\<open>x.transpose(1, 2)\<close>.\<close>

definition transpose12 :: "'a tensor3 \<Rightarrow> 'a tensor3" where
  "transpose12 x = \<lparr>nbatch = nbatch x, nseq = nfeat x, nfeat = nseq x,
                    at3 = (\<lambda>i j k. at3 x i k j)\<rparr>"

text \<open>\<open>x.detach()\<close> cuts the gradient and keeps every value.\<close>

definition detach :: "'a tensor3 \<Rightarrow> 'a tensor3" where
  "detach x = x"

text \<open>\<open>x.sum()\<close>: the sum of all entries.\<close>

definition sum3 :: "real tensor3 \<Rightarrow> real" where
  "sum3 x = (\<Sum>i<nbatch x. \<Sum>j<nseq x. \<Sum>k<nfeat x. at3 x i j k)"

text \<open>\<open>F.softmax(x, dim=-1)\<close> and \<open>F.log_softmax(x, dim=-1)\<close>.\<close>

definition softmax :: "real tensor3 \<Rightarrow> real tensor3" where
  "softmax x = \<lparr>nbatch = nbatch x, nseq = nseq x, nfeat = nfeat x,
                 at3 = (\<lambda>i j k. exp (at3 x i j k) / (\<Sum>c<nfeat x. exp (at3 x i j c)))\<rparr>"

definition log_softmax :: "real tensor3 \<Rightarrow> real tensor3" where
  "log_softmax x = \<lparr>nbatch = nbatch x, nseq = nseq x, nfeat = nfeat x,
                     at3 = (\<lambda>i j k. at3 x i j k - ln (\<Sum>c<nfeat x. exp (at3 x i j c)))\<rparr>"

text \<open>
  \<open>F.kl_div(input, target, reduction='none')\<close> with a target that is not in log space:
  entry by entry \<open>xlogy(target, target) - target * input\<close>, where \<open>xlogy(0, y) = 0\<close>.
\<close>

definition xlogy :: "real \<Rightarrow> real \<Rightarrow> real" where
  "xlogy x y = (if x = 0 then 0 else x * ln y)"

definition kl_div :: "real tensor3 \<Rightarrow> real tensor3 \<Rightarrow> error + real tensor3" where
  "kl_div inp target = broadcast3 (\<lambda>i t. xlogy t t - t * i) inp target"

text \<open>
  \<open>x.argmax(-1)\<close>: at every position the index of the first maximal entry along the last
  dimension. Reducing a dimension of size 0 raises.
\<close>

fun argmax_upto :: "(nat \<Rightarrow> real) \<Rightarrow> nat \<Rightarrow> nat" where
  "argmax_upto f 0 = 0"
| "argmax_upto f (Suc n) =
     (if n = 0 then 0
      else (let i = argmax_upto f n in if f i < f n then n else i))"

definition argmax_last :: "real tensor3 \<Rightarrow> error + int tensor2" where
  "argmax_last x =
     (if nfeat x = 0 then Inl IndexError
      else Inr \<lparr>nrow = nbatch x, ncol = nseq x,
                at2 = (\<lambda>i j. int (argmax_upto (at3 x i j) (nfeat x)))\<rparr>)"

text \<open>\<open>x.squeeze(0)\<close>: a first dimension of size 1 is removed, any other is kept.\<close>

datatype predicts = Pred2 "int tensor2" | Pred3 "int tensor3"

definition squeeze0 :: "int tensor3 \<Rightarrow> predicts" where
  "squeeze0 x =
     (if nbatch x = 1 then Pred2 \<lparr>nrow = nseq x, ncol = nfeat x, at2 = (\<lambda>i j. at3 x 0 i j)\<rparr>
      else Pred3 x)"

section \<open>Collaborators\<close>

text \<open>
  The encoder, the word dropout, the CRF decoders, the token mask and the padding label
  id live in other modules of the package; the linear layer and the cross-entropy loss
  are the tensor library's. Each is a parameter here: a field of \<open>collaborators\<close>
  stands for what the collaborator returns in the call considered. A mask is an integer
  tensor (a boolean one holds 0 and 1). The CRF's \<open>decode\<close> returns a tensor of rank 3
  whose first dimension is the one that \<open>squeeze(0)\<close> removes.
\<close>

record 'tok Encoder =
  hidden_size :: nat
  encode :: "'tok \<Rightarrow> real tensor3"

datatype ('tok, 'cfg) encoder_arg = EncoderInstance "'tok Encoder" | EncoderConfig 'cfg

record Linear =
  in_features :: nat
  out_features :: nat
  weight :: "nat \<Rightarrow> nat \<Rightarrow> real"
  bias :: "nat \<Rightarrow> real"

datatype WordDropout = WordDropout real

text \<open>A decoder object keeps the arguments of its constructor: the number of tags and \<open>batch_first\<close>.\<close>

datatype decoder = CRF nat bool | PartialCRF nat bool

record CrossEntropyLoss =
  reduction :: string
  ignore_index :: int

record ('tok, 'cfg) collaborators =
  Encoder_from_config :: "'cfg \<Rightarrow> 'tok Encoder"
  Linear_init :: "nat \<Rightarrow> nat \<Rightarrow> (nat \<Rightarrow> nat \<Rightarrow> real) \<times> (nat \<Rightarrow> real)"
  WordDropout_call :: "WordDropout \<Rightarrow> real tensor3 \<Rightarrow> real tensor3"
  get_tokens_mask :: "'tok \<Rightarrow> nat \<Rightarrow> int tensor2"
  crf_call :: "decoder \<Rightarrow> real tensor3 \<Rightarrow> int tensor2 \<Rightarrow> string \<Rightarrow> int tensor2 \<Rightarrow> real"
  crf_decode :: "decoder \<Rightarrow> real tensor3 \<Rightarrow> int tensor2 \<Rightarrow> int tensor3"
  crf_compute_posterior :: "decoder \<Rightarrow> real tensor3 \<Rightarrow> int tensor2 \<Rightarrow> real tensor3"
  CrossEntropyLoss_call :: "CrossEntropyLoss \<Rightarrow> real tensor3 \<Rightarrow> int tensor2 \<Rightarrow> real"
  PAD_LABEL_ID :: int

text \<open>
  \<open>nn.Linear(in_features, out_features)\<close> and its application to a batch of embeddings:
  every embedding \<open>v\<close> becomes \<open>W v + b\<close>; a last dimension other than \<open>in_features\<close> raises.
\<close>

definition nn_Linear :: "('tok, 'cfg) collaborators \<Rightarrow> nat \<Rightarrow> nat \<Rightarrow> Linear" where
  "nn_Linear env n_in n_out =
     \<lparr>in_features = n_in, out_features = n_out,
      weight = fst (Linear_init env n_in n_out), bias = snd (Linear_init env n_in n_out)\<rparr>"

definition Linear_call :: "Linear \<Rightarrow> real tensor3 \<Rightarrow> error + real tensor3" where
  "Linear_call l x =
     (if nfeat x \<noteq> in_features l then Inl RuntimeError
      else Inr \<lparr>nbatch = nbatch x, nseq = nseq x, nfeat = out_features l,
                at3 = (\<lambda>i j k. (\<Sum>c<in_features l. at3 x i j c * weight l k c) + bias l k)\<rparr>)"

section \<open>The sequence labeling model\<close>

text \<open>
  The attributes \<open>dropout\<close>, \<open>crf\<close> and \<open>loss_fn\<close> exist only on the branch of
  the constructor that sets them; reading a missing one raises AttributeError.
  \<open>training\<close> is the mode flag of the module, set when a module is built.
\<close>

record 'tok SequenceLabelingModel =
  id_to_label :: "int \<rightharpoonup> string"
  num_labels :: nat
  encoder :: "'tok Encoder"
  linear :: Linear
  use_dropout :: bool
  dropout :: "WordDropout option"
  use_crf :: bool
  crf :: "decoder option"
  loss_fn :: "CrossEntropyLoss option"
  multiview :: bool
  mv_loss_type :: string
  temperature :: real
  mv_interpolation :: real
  training :: bool

text \<open>
  The constructor. \<open>len(id_to_label)\<close> is the number of keys of the dictionary, which
  is finite. Further keyword arguments are accepted and not read.
  The defaults of the signature are \<open>word_dropout = 0.0\<close>, \<open>use_crf = True\<close>,
  \<open>multiview = False\<close>, \<open>temperature = 1.0\<close>, \<open>mv_loss_type = 'kl'\<close>,
  \<open>mv_interpolation = 0.5\<close> and \<open>partial = False\<close>.
\<close>

definition init ::
  "('tok, 'cfg) collaborators \<Rightarrow> (int \<rightharpoonup> string) \<Rightarrow> ('tok, 'cfg) encoder_arg \<Rightarrow> real \<Rightarrow> bool \<Rightarrow>
   bool \<Rightarrow> real \<Rightarrow> string \<Rightarrow> real \<Rightarrow> bool \<Rightarrow> 'tok SequenceLabelingModel" where
  "init env id_to_label' encoder' word_dropout use_crf' multiview' temperature' mv_loss_type'
        mv_interpolation' partial =
     (let n = card (dom id_to_label');
          enc = (case encoder' of
                   EncoderInstance e \<Rightarrow> e
                 | EncoderConfig c \<Rightarrow> Encoder_from_config env c);
          use_dropout' = (word_dropout > 0.0)
      in \<lparr>id_to_label = id_to_label',
          num_labels = n,
          encoder = enc,
          linear = nn_Linear env (hidden_size enc) n,
          use_dropout = use_dropout',
          dropout = (if use_dropout' then Some (WordDropout word_dropout) else None),
          use_crf = use_crf',
          crf = (if use_crf' then (if partial then Some (PartialCRF n True) else Some (CRF n True))
                 else None),
          loss_fn = (if use_crf' then None
                     else Some \<lparr>reduction = ''mean'', ignore_index = PAD_LABEL_ID env\<rparr>),
          multiview = multiview',
          mv_loss_type = mv_loss_type',
          temperature = temperature',
          mv_interpolation = mv_interpolation',
          training = True\<rparr>)"

definition default_word_dropout :: real where
  "default_word_dropout = 0.0"

text \<open>\<open>_forward\<close>: encoder, word dropout when it is in use, linear projection.\<close>

definition u_forward ::
  "('tok, 'cfg) collaborators \<Rightarrow> 'tok SequenceLabelingModel \<Rightarrow> 'tok \<Rightarrow> error + real tensor3" where
  "u_forward env m tokens =
     (let embed = encode (encoder m) tokens in
      if use_dropout m then
        (case dropout m of
           None \<Rightarrow> Inl AttributeError
         | Some d \<Rightarrow> Linear_call (linear m) (WordDropout_call env d embed))
      else Linear_call (linear m) embed)"

text \<open>\<open>_calculate_loss\<close>. A missing \<open>targets\<close> (\<open>None\<close>) cannot be multiplied or scored.\<close>

definition u_calculate_loss ::
  "('tok, 'cfg) collaborators \<Rightarrow> 'tok SequenceLabelingModel \<Rightarrow> real tensor3 \<Rightarrow>
   int tensor2 option \<Rightarrow> int tensor2 \<Rightarrow> error + real" where
  "u_calculate_loss env m logits targets mask' =
     (if use_crf m then
        (case targets of
           None \<Rightarrow> Inl TypeError
         | Some t \<Rightarrow>
             (case mul2 t mask' of
                Inl e \<Rightarrow> Inl e
              | Inr targets' \<Rightarrow>
                  (case crf m of
                     None \<Rightarrow> Inl AttributeError
                   | Some c \<Rightarrow> Inr (- crf_call env c logits targets' ''mean'' mask'))))
      else
        (case loss_fn m of
           None \<Rightarrow> Inl AttributeError
         | Some f \<Rightarrow>
             (case targets of
                None \<Rightarrow> Inl TypeError
              | Some t \<Rightarrow> Inr (CrossEntropyLoss_call env f (transpose12 logits) t))))"

text \<open>
  The expression that \<open>_calculate_cl_loss\<close> writes twice, once on logits and once on
  CRF posteriors:
  \<open>F.kl_div(F.log_softmax(a / T, dim=-1), F.softmax(b / T, dim=-1), reduction='none')
    * mask.unsqueeze(-1) * T * T\<close>.
\<close>

definition masked_kl :: "real tensor3 \<Rightarrow> real tensor3 \<Rightarrow> int tensor2 \<Rightarrow> real \<Rightarrow> error + real tensor3" where
  "masked_kl a b mask' T =
     (case kl_div (log_softmax (map3 (\<lambda>v. v / T) a)) (softmax (map3 (\<lambda>v. v / T) b)) of
        Inl e \<Rightarrow> Inl e
      | Inr kl \<Rightarrow>
          (case mul_mask kl mask' of
             Inl e \<Rightarrow> Inl e
           | Inr masked \<Rightarrow> Inr (map3 (\<lambda>v. v * T) (map3 (\<lambda>v. v * T) masked))))"

text \<open>\<open>_calculate_cl_loss\<close>.\<close>

definition u_calculate_cl_loss ::
  "('tok, 'cfg) collaborators \<Rightarrow> 'tok SequenceLabelingModel \<Rightarrow> real tensor3 \<Rightarrow> real tensor3 \<Rightarrow>
   int tensor2 \<Rightarrow> real \<Rightarrow> error + real" where
  "u_calculate_cl_loss env m ext_view_logits origin_view_logits mask' T =
     (if multiview m then
        (let batch_size = nbatch ext_view_logits;
             ext_view_logits' = detach ext_view_logits
         in case (if mv_loss_type m = ''kl'' then
                    masked_kl origin_view_logits ext_view_logits' mask' T
                  else if mv_loss_type m = ''crf_kl'' then
                    (if use_crf m then
                       (case crf m of
                          None \<Rightarrow> Inl AttributeError
                        | Some c \<Rightarrow>
                            masked_kl (crf_compute_posterior env c origin_view_logits mask')
                                      (crf_compute_posterior env c ext_view_logits' mask') mask' T)
                     else Inl NotImplementedError)
                  else Inl NotImplementedError) of
              Inl e \<Rightarrow> Inl e
            | Inr loss' \<Rightarrow> Inr (sum3 loss' / real batch_size))
      else Inr 0.0)"

text \<open>\<open>decode\<close>.\<close>

definition decode ::
  "('tok, 'cfg) collaborators \<Rightarrow> 'tok SequenceLabelingModel \<Rightarrow> real tensor3 \<Rightarrow> int tensor2 \<Rightarrow>
   error + predicts" where
  "decode env m logits mask' =
     (if use_crf m then
        (case crf m of
           None \<Rightarrow> Inl AttributeError
         | Some c \<Rightarrow> Inr (squeeze0 (crf_decode env c logits mask')))
      else
        (case argmax_last logits of
           Inl e \<Rightarrow> Inl e
         | Inr p \<Rightarrow> Inr (Pred2 p)))"

text \<open>
  \<open>forward\<close>. The result is the dictionary \<open>outputs\<close>; \<open>meta\<close> is accepted and not read.
  The test \<open>self.multiview and origin_tokens is not None\<close> is the case distinction on
  \<open>if multiview m then origin_tokens else None\<close>: its \<open>Some\<close> branch is the multiview
  training, its \<open>None\<close> branch leaves the loss as it is.
\<close>

datatype output_value = Logits "real tensor3" | Loss real | Predicts predicts

definition forward ::
  "('tok, 'cfg) collaborators \<Rightarrow> 'tok SequenceLabelingModel \<Rightarrow> 'tok \<Rightarrow> int tensor2 option \<Rightarrow>
   'meta option \<Rightarrow> 'tok option \<Rightarrow> int tensor2 option \<Rightarrow> error + (string \<rightharpoonup> output_value)" where
  "forward env m tokens label_ids meta origin_tokens origin_mask =
     (case u_forward env m tokens of
        Inl e \<Rightarrow> Inl e
      | Inr logits \<Rightarrow>
          (let mask' = get_tokens_mask env tokens (nseq logits) in
           if training m then
             (let crf_mask = (case origin_mask of Some om \<Rightarrow> om | None \<Rightarrow> mask') in
              case u_calculate_loss env m logits label_ids crf_mask of
                Inl e \<Rightarrow> Inl e
              | Inr loss \<Rightarrow>
                  (case (case (if multiview m then origin_tokens else None) of
                           None \<Rightarrow> Inr loss
                         | Some ot \<Rightarrow>
                             (case u_forward env m ot of
                                Inl e \<Rightarrow> Inl e
                              | Inr origin_view_logits \<Rightarrow>
                                  (let origin_mask' =
                                         get_tokens_mask env ot (nseq origin_view_logits)
                                   in case u_calculate_loss env m origin_view_logits label_ids
                                             origin_mask' of
                                        Inl e \<Rightarrow> Inl e
                                      | Inr origin_view_loss \<Rightarrow>
                                          (if mv_loss_type m = ''kl'' then
                                             (case u_calculate_cl_loss env m logits
                                                     origin_view_logits mask' (temperature m) of
                                                Inl e \<Rightarrow> Inl e
                                              | Inr cl_kl_loss \<Rightarrow>
                                                  Inr (mv_interpolation m * (loss + origin_view_loss)
                                                       + (1 - mv_interpolation m) * cl_kl_loss))
                                           else if mv_loss_type m = ''crf_kl'' then
                                             (case u_calculate_cl_loss env m logits
                                                     origin_view_logits mask' (temperature m) of
                                                Inl e \<Rightarrow> Inl e
                                              | Inr cl_kl_loss \<Rightarrow>
                                                  Inr (mv_interpolation m * (loss + origin_view_loss)
                                                       + (1 - mv_interpolation m) * cl_kl_loss))
                                           else Inr loss)))) of
                     Inl e \<Rightarrow> Inl e
                   | Inr loss' \<Rightarrow> Inr [''logits'' \<mapsto> Logits logits, ''loss'' \<mapsto> Loss loss']))
           else
             (case decode env m logits mask' of
                Inl e \<Rightarrow> Inl e
              | Inr predicts' \<Rightarrow>
                  Inr [''logits'' \<mapsto> Logits logits, ''predicts'' \<mapsto> Predicts predicts'])))"

section \<open>The consistency loss in the words of the specification\<close>

text \<open>
  The specification describes the consistency loss of multi-view training as the
  Kullback-Leibler divergence between the predicted distributions of the two views,
  with the augmented view as the target: entry by entry \<open>p * (ln p - ln q)\<close> for the
  augmented view's softmax \<open>p\<close> and the origin view's softmax \<open>q\<close>, both at temperature
  \<open>T\<close>, times the mask of the token, times \<open>T\<close> squared, summed over all entries and
  divided by the batch size. This definition follows those words and not the code.
\<close>

definition spec_consistency_kl :: "real tensor3 \<Rightarrow> real tensor3 \<Rightarrow> int tensor2 \<Rightarrow> real \<Rightarrow> real" where
  "spec_consistency_kl ext origin mask' T =
     (\<Sum>b<nbatch ext. \<Sum>l<nseq ext. \<Sum>c<nfeat ext.
        (let p = exp (at3 ext b l c / T) / (\<Sum>c'<nfeat ext. exp (at3 ext b l c' / T));
             log_q = at3 origin b l c / T - ln (\<Sum>c'<nfeat origin. exp (at3 origin b l c' / T))
         in p * (ln p - log_q) * real_of_int (at2 mask' b l) * T\<^sup>2))
     / real (nbatch ext)"

section \<open>A small model\<close>

text \<open>
  A concrete set of collaborators and a model with two labels, on which the functions
  above are evaluated: tokens are numbers, the encoder embeds a token as one sentence of
  two positions with hidden size 1, and the first position only is unmasked.
\<close>

definition example_encoder :: "nat Encoder" where
  "example_encoder =
     \<lparr>hidden_size = 1,
      encode = (\<lambda>tok. \<lparr>nbatch = 1, nseq = 2, nfeat = 1, at3 = (\<lambda>i j k. real tok)\<rparr>)\<rparr>"

definition example_mask :: "int tensor2" where
  "example_mask = \<lparr>nrow = 1, ncol = 2, at2 = (\<lambda>i j. if j = 0 then 1 else 0)\<rparr>"

definition example_env :: "(nat, unit) collaborators" where
  "example_env =
     \<lparr>Encoder_from_config = (\<lambda>c. example_encoder),
      Linear_init = (\<lambda>n_in n_out. ((\<lambda>k c. 1), (\<lambda>k. real k))),
      WordDropout_call = (\<lambda>d x. map3 (\<lambda>v. 0) x),
      get_tokens_mask = (\<lambda>tok n. example_mask),
      crf_call = (\<lambda>c logits targets red mask'. - 3),
      crf_decode = (\<lambda>c logits mask'.
        \<lparr>nbatch = 1, nseq = nbatch logits, nfeat = nseq logits, at3 = (\<lambda>n i j. 0)\<rparr>),
      crf_compute_posterior = (\<lambda>c logits mask'. logits),
      CrossEntropyLoss_call = (\<lambda>f logits targets. 2),
      PAD_LABEL_ID = - 100\<rparr>"

definition example_labels :: "int \<rightharpoonup> string" where
  "example_labels = [0 \<mapsto> ''O'', 1 \<mapsto> ''B'']"

definition example_model :: "real \<Rightarrow> bool \<Rightarrow> bool \<Rightarrow> string \<Rightarrow> nat SequenceLabelingModel" where
  "example_model word_dropout use_crf' multiview' mv_loss_type' =
     init example_env example_labels (EncoderInstance example_encoder) word_dropout use_crf'
       multiview' 2.0 mv_loss_type' 0.5 False"

definition example_label_ids :: "int tensor2" where
  "example_label_ids = \<lparr>nrow = 1, ncol = 2, at2 = (\<lambda>i j. if j = 0 then 1 else - 100)\<rparr>"

definition example_logits :: "nat \<Rightarrow> real tensor3" where
  "example_logits tok = \<lparr>nbatch = 1, nseq = 2, nfeat = 2, at3 = (\<lambda>i j k. real tok + real k)\<rparr>"

section \<open>Properties\<close>

subsection \<open>Auxiliary facts\<close>

lemma bidx_in_range: "i < n \<Longrightarrow> bidx n i = i"
  by (auto simp: bidx_def)

lemma bdim_same: "bdim n n = Some n"
  by (simp add: bdim_def)

lemma xlogy_self: "xlogy t t = t * ln t"
  by (simp add: xlogy_def)

lemma kl_entry_algebra:
  fixes p :: real
  shows "(p * lp - p * lq) * mk * T * T = p * (lp - lq) * mk * T\<^sup>2"
  by (simp add: power2_eq_square algebra_simps)

lemma broadcast3_same_shape:
  assumes "nbatch a = nbatch b" and "nseq a = nseq b" and "nfeat a = nfeat b"
  shows "broadcast3 f a b =
           Inr \<lparr>nbatch = nbatch b, nseq = nseq b, nfeat = nfeat b,
                at3 = (\<lambda>i j k.
                  f (at3 a (bidx (nbatch b) i) (bidx (nseq b) j) (bidx (nfeat b) k))
                    (at3 b (bidx (nbatch b) i) (bidx (nseq b) j) (bidx (nfeat b) k)))\<rparr>"
  using assms by (simp add: broadcast3_def bdim_same)

lemma mul_mask_same_shape:
  assumes "nrow mask' = nbatch x" and "ncol mask' = nseq x"
  shows "mul_mask x mask' =
           Inr \<lparr>nbatch = nbatch x, nseq = nseq x, nfeat = nfeat x,
                at3 = (\<lambda>i j k.
                  at3 x (bidx (nbatch x) i) (bidx (nseq x) j) (bidx (nfeat x) k)
                    * real_of_int (at2 mask' (bidx (nbatch x) i) (bidx (nseq x) j)))\<rparr>"
  using assms
  by (simp add: mul_mask_def broadcast3_def bdim_def unsqueeze_last_def bidx_def)

lemma masked_kl_same_shape:
  assumes "nbatch a = nbatch b" and "nseq a = nseq b" and "nfeat a = nfeat b"
    and "nrow mask' = nbatch b" and "ncol mask' = nseq b"
  shows "\<exists>r. masked_kl a b mask' T = Inr r
           \<and> nbatch r = nbatch b \<and> nseq r = nseq b \<and> nfeat r = nfeat b
           \<and> (\<forall>i<nbatch b. \<forall>j<nseq b. \<forall>k<nfeat b.
                 at3 r i j k =
                   (let p = exp (at3 b i j k / T) / (\<Sum>c<nfeat b. exp (at3 b i j c / T));
                        log_q = at3 a i j k / T - ln (\<Sum>c<nfeat a. exp (at3 a i j c / T))
                    in p * (ln p - log_q) * real_of_int (at2 mask' i j) * T\<^sup>2))"
proof -
  let ?inp = "log_softmax (map3 (\<lambda>v. v / T) a)"
  let ?tgt = "softmax (map3 (\<lambda>v. v / T) b)"
  have shapes: "nbatch ?inp = nbatch ?tgt" "nseq ?inp = nseq ?tgt" "nfeat ?inp = nfeat ?tgt"
    using assms(1-3) by (simp_all add: log_softmax_def softmax_def map3_def)
  let ?kl = "\<lparr>nbatch = nbatch ?tgt, nseq = nseq ?tgt, nfeat = nfeat ?tgt,
              at3 = (\<lambda>i j k.
                (\<lambda>i t. xlogy t t - t * i)
                  (at3 ?inp (bidx (nbatch ?tgt) i) (bidx (nseq ?tgt) j) (bidx (nfeat ?tgt) k))
                  (at3 ?tgt (bidx (nbatch ?tgt) i) (bidx (nseq ?tgt) j) (bidx (nfeat ?tgt) k)))\<rparr>"
  have kl: "kl_div ?inp ?tgt = Inr ?kl"
    unfolding kl_div_def by (rule broadcast3_same_shape [OF shapes])
  have kl_dims: "nbatch ?kl = nbatch b" "nseq ?kl = nseq b" "nfeat ?kl = nfeat b"
    by (simp_all add: softmax_def map3_def)
  let ?masked = "\<lparr>nbatch = nbatch ?kl, nseq = nseq ?kl, nfeat = nfeat ?kl,
                at3 = (\<lambda>i j k.
                  at3 ?kl (bidx (nbatch ?kl) i) (bidx (nseq ?kl) j) (bidx (nfeat ?kl) k)
                    * real_of_int (at2 mask' (bidx (nbatch ?kl) i) (bidx (nseq ?kl) j)))\<rparr>"
  have masked: "mul_mask ?kl mask' = Inr ?masked"
    by (rule mul_mask_same_shape) (simp_all only: kl_dims assms(4,5))
  let ?r = "map3 (\<lambda>v. v * T) (map3 (\<lambda>v. v * T) ?masked)"
  have res: "masked_kl a b mask' T = Inr ?r"
    unfolding masked_kl_def kl by (simp only: sum.case masked)
  have dims: "nbatch ?r = nbatch b" "nseq ?r = nseq b" "nfeat ?r = nfeat b"
    by (simp_all add: map3_def softmax_def)
  have entries: "at3 ?r i j k =
                   (let p = exp (at3 b i j k / T) / (\<Sum>c<nfeat b. exp (at3 b i j c / T));
                        log_q = at3 a i j k / T - ln (\<Sum>c<nfeat a. exp (at3 a i j c / T))
                    in p * (ln p - log_q) * real_of_int (at2 mask' i j) * T\<^sup>2)"
    if "i < nbatch b" "j < nseq b" "k < nfeat b" for i j k
  proof -
    let ?p = "exp (at3 b i j k / T) / (\<Sum>c<nfeat b. exp (at3 b i j c / T))"
    let ?lq = "at3 a i j k / T - ln (\<Sum>c<nfeat a. exp (at3 a i j c / T))"
    have "at3 ?r i j k = (?p * ln ?p - ?p * ?lq) * real_of_int (at2 mask' i j) * T * T"
      using that
      by (simp add: map3_def softmax_def log_softmax_def bidx_in_range xlogy_self)
    also have "\<dots> = ?p * (ln ?p - ?lq) * real_of_int (at2 mask' i j) * T\<^sup>2"
      by (rule kl_entry_algebra)
    finally show ?thesis by (simp only: Let_def)
  qed
  show ?thesis
    using res dims entries by blast
qed

lemma wrap64_zero: "wrap64 0 = 0"
  by (simp add: wrap64_def)

lemma wrap64_in_range: "- (2 ^ 63) \<le> z \<Longrightarrow> z < 2 ^ 63 \<Longrightarrow> wrap64 z = z"
  by (simp add: wrap64_def)

lemma argmax_upto_less: "0 < n \<Longrightarrow> argmax_upto f n < n"
  by (induction n) (auto simp: Let_def less_Suc_eq)

lemma argmax_upto_max: "k < n \<Longrightarrow> f k \<le> f (argmax_upto f n)"
proof (induction n)
  case 0
  then show ?case by simp
next
  case (Suc n)
  show ?case
  proof (cases "n = 0")
    case True
    with Suc.prems show ?thesis by simp
  next
    case False
    show ?thesis
    proof (cases "k = n")
      case True
      with False show ?thesis by (simp add: Let_def)
    next
      case k: False
      with Suc.prems have "k < n" by simp
      then have "f k \<le> f (argmax_upto f n)" by (rule Suc.IH)
      with False show ?thesis by (simp add: Let_def)
    qed
  qed
qed

lemma argmax_upto_first: "k < argmax_upto f n \<Longrightarrow> f k < f (argmax_upto f n)"
proof (induction n)
  case 0
  then show ?case by simp
next
  case (Suc n)
  show ?case
  proof (cases "n = 0")
    case True
    with Suc.prems show ?thesis by simp
  next
    case False
    then have inner: "argmax_upto f n < n" by (simp add: argmax_upto_less)
    show ?thesis
    proof (cases "f (argmax_upto f n) < f n")
      case True
      with False Suc.prems have "k < n" by (simp add: Let_def)
      then have "f k \<le> f (argmax_upto f n)" by (rule argmax_upto_max)
      with True False show ?thesis by (simp add: Let_def)
    next
      case no: False
      with False Suc.prems have "k < argmax_upto f n" by (simp add: Let_def)
      then have "f k < f (argmax_upto f n)" by (rule Suc.IH)
      with no False show ?thesis by (simp add: Let_def)
    qed
  qed
qed

lemma argmax_upto_mono:
  assumes "\<And>a b. (g a < g b) = (f a < f b)"
  shows "argmax_upto g n = argmax_upto f n"
proof (induction n)
  case 0
  show ?case by simp
next
  case (Suc n)
  then show ?case using assms by (simp add: Let_def)
qed

lemma softmax_order:
  fixes f :: "nat \<Rightarrow> real"
  assumes "0 < n"
  shows "(exp (f a) / (\<Sum>c<n. exp (f c)) < exp (f b) / (\<Sum>c<n. exp (f c))) = (f a < f b)"
proof -
  have "0 < (\<Sum>c<n. exp (f c))"
    using assms by (intro sum_pos) auto
  then show ?thesis
    by (simp add: divide_strict_right_mono divide_less_cancel)
qed

lemma argmax_last_softmax: "argmax_last (softmax x) = argmax_last x"
proof (cases "nfeat x = 0")
  case True
  then show ?thesis by (simp add: argmax_last_def softmax_def)
next
  case False
  then have pos: "0 < nfeat x" by simp
  have "argmax_upto (\<lambda>k. exp (at3 x i j k) / (\<Sum>c<nfeat x. exp (at3 x i j c))) (nfeat x)
          = argmax_upto (at3 x i j) (nfeat x)" for i j
    by (rule argmax_upto_mono) (rule softmax_order [OF pos])
  then show ?thesis
    using False by (simp add: argmax_last_def softmax_def)
qed

lemma u_forward_not_nie: "u_forward env m tokens \<noteq> Inl NotImplementedError"
  by (auto simp: u_forward_def Linear_call_def Let_def split: option.splits)

lemma u_calculate_loss_not_nie:
  "u_calculate_loss env m logits targets mask' \<noteq> Inl NotImplementedError"
  by (auto simp: u_calculate_loss_def mul2_def broadcast2_def split: option.splits sum.splits)

subsection \<open>The small model, evaluated\<close>

lemma example_card: "card (dom example_labels) = 2"
  by (simp add: example_labels_def)

lemma example_fields:
  "training (example_model wd uc mv mvt)"
  "multiview (example_model wd uc mv mvt) = mv"
  "use_crf (example_model wd uc mv mvt) = uc"
  "mv_loss_type (example_model wd uc mv mvt) = mvt"
  "temperature (example_model wd uc mv mvt) = 2"
  "mv_interpolation (example_model wd uc mv mvt) = 1 / 2"
  "num_labels (example_model wd uc mv mvt) = 2"
  "crf (example_model wd uc mv mvt) = (if uc then Some (CRF 2 True) else None)"
  by (simp_all add: example_model_def init_def Let_def example_card)

lemma example_u_forward:
  "u_forward example_env (example_model 0 uc mv mvt) tok = Inr (example_logits tok)"
  by (simp add: u_forward_def example_model_def init_def Let_def example_card example_encoder_def
      Linear_call_def nn_Linear_def example_env_def example_logits_def)

lemma example_get_tokens_mask: "get_tokens_mask example_env tok n = example_mask"
  by (simp add: example_env_def)

lemma example_mul2:
  "mul2 example_label_ids example_mask =
     Inr \<lparr>nrow = 1, ncol = 2,
          at2 = (\<lambda>i j. wrap64 ((if j = 0 then 1 else - 100) * (if j = 0 then 1 else 0)))\<rparr>"
  by (simp add: mul2_def broadcast2_def bdim_def bidx_def example_label_ids_def example_mask_def)

lemma example_loss_crf:
  "u_calculate_loss example_env (example_model wd True mv mvt) logits (Some example_label_ids)
     example_mask = Inr 3"
  by (simp add: u_calculate_loss_def example_fields example_mul2) (simp add: example_env_def)


lemma example_cl_loss:
  "\<exists>cl. u_calculate_cl_loss example_env (example_model wd uc True ''kl'') (example_logits a)
          (example_logits b) example_mask 2 = Inr cl"
proof -
  obtain r where "masked_kl (example_logits b) (example_logits a) example_mask 2 = Inr r"
    using masked_kl_same_shape [of "example_logits b" "example_logits a" example_mask 2]
    by (auto simp: example_logits_def example_mask_def)
  then show ?thesis
    by (simp add: u_calculate_cl_loss_def example_fields detach_def)
qed

lemma example_forward_train:
  "forward example_env (example_model 0 True False mvt) 3 (Some example_label_ids)
     (None :: unit option) None None
   = Inr [''logits'' \<mapsto> Logits (example_logits 3), ''loss'' \<mapsto> Loss 3]"
  by (simp add: forward_def example_u_forward example_get_tokens_mask example_fields
      example_loss_crf)

lemma example_forward_eval:
  "forward example_env ((example_model 0 False False mvt)\<lparr>training := False\<rparr>) 3 None
     (None :: unit option) None None
   = Inr [''logits'' \<mapsto> Logits (example_logits 3),
          ''predicts'' \<mapsto> Predicts (Pred2 \<lparr>nrow = 1, ncol = 2,
             at2 = (\<lambda>i j. int (argmax_upto (at3 (example_logits 3) i j) 2))\<rparr>)]"
proof -
  have "u_forward example_env ((example_model 0 False False mvt)\<lparr>training := False\<rparr>) 3
          = u_forward example_env (example_model 0 False False mvt) 3"
    by (simp add: u_forward_def Let_def split: option.splits)
  then show ?thesis
    by (simp add: forward_def example_u_forward example_get_tokens_mask example_fields decode_def
        argmax_last_def example_logits_def)
qed

subsection \<open>The claims\<close>

text \<open>
  C1. In training mode with multiview enabled, origin tokens given and a loss type of
  \<open>kl\<close> or \<open>crf_kl\<close>, \<open>forward\<close> returns exactly when the logits of both views, the
  loss of both views (each by \<open>_calculate_loss\<close> on the same \<open>label_ids\<close>) and the
  consistency loss are computed, and the loss it returns is then
  \<open>mv_interpolation * (loss + origin_view_loss) + (1 - mv_interpolation) * cl_kl_loss\<close>.
\<close>

theorem forward_multiview_loss:
  assumes "training m" and "multiview m"
    and "mv_loss_type m = ''kl'' \<or> mv_loss_type m = ''crf_kl''"
  shows "forward env m tokens label_ids meta (Some origin_tokens) origin_mask = Inr outputs
         \<longleftrightarrow>
         (\<exists>logits origin_view_logits loss origin_view_loss cl_kl_loss.
            u_forward env m tokens = Inr logits
          \<and> u_calculate_loss env m logits label_ids
               (case origin_mask of Some om \<Rightarrow> om
                | None \<Rightarrow> get_tokens_mask env tokens (nseq logits)) = Inr loss
          \<and> u_forward env m origin_tokens = Inr origin_view_logits
          \<and> u_calculate_loss env m origin_view_logits label_ids
               (get_tokens_mask env origin_tokens (nseq origin_view_logits)) = Inr origin_view_loss
          \<and> u_calculate_cl_loss env m logits origin_view_logits
               (get_tokens_mask env tokens (nseq logits)) (temperature m) = Inr cl_kl_loss
          \<and> outputs = [''logits'' \<mapsto> Logits logits,
                        ''loss'' \<mapsto> Loss (mv_interpolation m * (loss + origin_view_loss)
                                            + (1 - mv_interpolation m) * cl_kl_loss)])"
  using assms
  by (auto simp: forward_def Let_def split: sum.splits)

theorem forward_multiview_loss_witness:
  "\<exists>cl. u_calculate_cl_loss example_env (example_model 0 True True ''kl'') (example_logits 3)
           (example_logits 4) example_mask 2 = Inr cl
       \<and> forward example_env (example_model 0 True True ''kl'') 3 (Some example_label_ids)
           (None :: unit option) (Some 4) None
          = Inr [''logits'' \<mapsto> Logits (example_logits 3),
                 ''loss'' \<mapsto> Loss (1 / 2 * (3 + 3) + (1 - 1 / 2) * cl)]"
proof -
  let ?m = "example_model 0 True True ''kl''"
  obtain cl where cl: "u_calculate_cl_loss example_env ?m (example_logits 3) (example_logits 4)
                         example_mask 2 = Inr cl"
    using example_cl_loss by blast
  have "forward example_env ?m 3 (Some example_label_ids) (None :: unit option) (Some 4) None
          = Inr [''logits'' \<mapsto> Logits (example_logits 3),
                 ''loss'' \<mapsto> Loss (1 / 2 * (3 + 3) + (1 - 1 / 2) * cl)]"
    by (rule iffD2 [OF forward_multiview_loss
                         [of ?m example_env 3 "Some example_label_ids" None 4 None]])
       (simp_all add: example_fields example_u_forward example_get_tokens_mask example_loss_crf cl)
  with cl show ?thesis by blast
qed

text \<open>
  C2. With \<open>use_crf\<close> enabled, the loss of \<open>_calculate_loss\<close> is the negation of what
  the CRF returns for the logits, the masked targets and the mask under the reduction
  \<open>mean\<close>, which is the CRF's mean sequence log-likelihood.
\<close>

theorem calculate_loss_crf:
  assumes "use_crf m" and "crf m = Some c" and "mul2 targets mask' = Inr targets'"
  shows "u_calculate_loss env m logits (Some targets) mask'
           = Inr (- crf_call env c logits targets' ''mean'' mask')"
  using assms by (simp add: u_calculate_loss_def)

theorem calculate_loss_crf_witness:
  "u_calculate_loss example_env (example_model 0 True False ''kl'') (example_logits 3)
     (Some example_label_ids) example_mask = Inr (- (- 3))"
  using calculate_loss_crf [of "example_model 0 True False ''kl''" "CRF 2 True"
      example_label_ids example_mask _ example_env "example_logits 3", OF _ _ example_mul2]
  by (simp add: example_fields) (simp add: example_env_def)

text \<open>
  C3. Whenever \<open>forward\<close> returns, the dictionary has the keys \<open>logits\<close> and \<open>loss\<close>
  in training mode and the keys \<open>logits\<close> and \<open>predicts\<close> in inference mode, and no
  other key.
\<close>

theorem forward_output_keys:
  assumes "forward env m tokens label_ids meta origin_tokens origin_mask = Inr outputs"
  shows "dom outputs = (if training m then {''logits'', ''loss''} else {''logits'', ''predicts''})
         \<and> (''loss'' \<in> dom outputs \<longleftrightarrow> training m)
         \<and> (''predicts'' \<in> dom outputs \<longleftrightarrow> \<not> training m)
         \<and> ''logits'' \<in> dom outputs"
  using assms
  by (auto simp: forward_def Let_def split: sum.splits if_splits)

theorem forward_output_keys_witness:
  "dom [''logits'' \<mapsto> Logits (example_logits 3), ''loss'' \<mapsto> Loss 3] = {''logits'', ''loss''}
   \<and> dom [''logits'' \<mapsto> Logits (example_logits 3),
           ''predicts'' \<mapsto> Predicts (Pred2 \<lparr>nrow = 1, ncol = 2,
              at2 = (\<lambda>i j. int (argmax_upto (at3 (example_logits 3) i j) 2))\<rparr>)]
       = {''logits'', ''predicts''}"
  using forward_output_keys [OF example_forward_train [of "''kl''"]]
    forward_output_keys [OF example_forward_eval [of "''kl''"]]
  by (simp add: example_fields)

text \<open>
  C4. CRF decoding is optional. With \<open>use_crf\<close>, \<open>decode\<close> returns the CRF's decoding of
  the logits under the mask: the decoding itself when its leading dimension is not of
  size 1, and otherwise its single leading slice, entry for entry. The decoder the
  constructor stores is a \<open>PartialCRF\<close> when \<open>partial\<close> is set and a \<open>CRF\<close> otherwise.
  Without \<open>use_crf\<close>, \<open>decode\<close> raises on logits with no label and otherwise returns, at
  every position of the batch, a label index within the number of labels whose logit is
  maximal among the labels and strictly above the logit of every smaller index; this
  argmax of the logits is also the argmax of their softmax.
\<close>

theorem decode_optional_crf:
  "(use_crf m \<longrightarrow> crf m = Some c \<longrightarrow>
      decode env m logits mask' = Inr (squeeze0 (crf_decode env c logits mask'))
    \<and> (nbatch (crf_decode env c logits mask') \<noteq> 1 \<longrightarrow>
         decode env m logits mask' = Inr (Pred3 (crf_decode env c logits mask')))
    \<and> (nbatch (crf_decode env c logits mask') = 1 \<longrightarrow>
         (\<exists>p. decode env m logits mask' = Inr (Pred2 p)
            \<and> nrow p = nseq (crf_decode env c logits mask')
            \<and> ncol p = nfeat (crf_decode env c logits mask')
            \<and> (\<forall>i j. at2 p i j = at3 (crf_decode env c logits mask') 0 i j))))
   \<and> (\<not> use_crf m \<longrightarrow>
        decode env m logits mask'
          = (case argmax_last logits of Inl e \<Rightarrow> Inl e | Inr p \<Rightarrow> Inr (Pred2 p))
      \<and> (nfeat logits = 0 \<longrightarrow> decode env m logits mask' = Inl IndexError)
      \<and> (0 < nfeat logits \<longrightarrow>
           (\<exists>p. decode env m logits mask' = Inr (Pred2 p)
              \<and> nrow p = nbatch logits \<and> ncol p = nseq logits
              \<and> (\<forall>i j. 0 \<le> at2 p i j \<and> at2 p i j < int (nfeat logits)
                    \<and> (\<forall>k<nfeat logits. at3 logits i j k \<le> at3 logits i j (nat (at2 p i j)))
                    \<and> (\<forall>k<nat (at2 p i j).
                          at3 logits i j k < at3 logits i j (nat (at2 p i j))))))
      \<and> argmax_last (softmax logits) = argmax_last logits)
   \<and> use_crf (init env id_to_label' encoder' word_dropout use_crf' multiview' temperature'
                 mv_loss_type' mv_interpolation' partial) = use_crf'
   \<and> crf (init env id_to_label' encoder' word_dropout use_crf' multiview' temperature'
             mv_loss_type' mv_interpolation' partial)
       = (if use_crf'
          then Some (if partial then PartialCRF (card (dom id_to_label')) True
                     else CRF (card (dom id_to_label')) True)
          else None)"
proof -
  have crf_part: "decode env m logits mask' = Inr (squeeze0 (crf_decode env c logits mask'))
      \<and> (nbatch (crf_decode env c logits mask') \<noteq> 1 \<longrightarrow>
           decode env m logits mask' = Inr (Pred3 (crf_decode env c logits mask')))
      \<and> (nbatch (crf_decode env c logits mask') = 1 \<longrightarrow>
           (\<exists>p. decode env m logits mask' = Inr (Pred2 p)
              \<and> nrow p = nseq (crf_decode env c logits mask')
              \<and> ncol p = nfeat (crf_decode env c logits mask')
              \<and> (\<forall>i j. at2 p i j = at3 (crf_decode env c logits mask') 0 i j)))"
    if "use_crf m" and "crf m = Some c"
    using that by (simp add: decode_def squeeze0_def)
  have argmax_part: "decode env m logits mask'
          = (case argmax_last logits of Inl e \<Rightarrow> Inl e | Inr p \<Rightarrow> Inr (Pred2 p))
      \<and> (nfeat logits = 0 \<longrightarrow> decode env m logits mask' = Inl IndexError)
      \<and> (0 < nfeat logits \<longrightarrow>
           (\<exists>p. decode env m logits mask' = Inr (Pred2 p)
              \<and> nrow p = nbatch logits \<and> ncol p = nseq logits
              \<and> (\<forall>i j. 0 \<le> at2 p i j \<and> at2 p i j < int (nfeat logits)
                    \<and> (\<forall>k<nfeat logits. at3 logits i j k \<le> at3 logits i j (nat (at2 p i j)))
                    \<and> (\<forall>k<nat (at2 p i j).
                          at3 logits i j k < at3 logits i j (nat (at2 p i j))))))
      \<and> argmax_last (softmax logits) = argmax_last logits"
    if "\<not> use_crf m"
    using that
    by (simp add: decode_def argmax_last_def argmax_last_softmax [unfolded argmax_last_def]
        argmax_upto_less argmax_upto_max argmax_upto_first)
  have ctor: "use_crf (init env id_to_label' encoder' word_dropout use_crf' multiview' temperature'
                 mv_loss_type' mv_interpolation' partial) = use_crf'
   \<and> crf (init env id_to_label' encoder' word_dropout use_crf' multiview' temperature'
             mv_loss_type' mv_interpolation' partial)
       = (if use_crf'
          then Some (if partial then PartialCRF (card (dom id_to_label')) True
                     else CRF (card (dom id_to_label')) True)
          else None)"
    by (simp add: init_def Let_def)
  from crf_part argmax_part ctor show ?thesis by blast
qed

theorem decode_optional_crf_witness:
  "decode example_env (example_model 0 True False ''kl'') (example_logits 3) example_mask
     = Inr (squeeze0 (crf_decode example_env (CRF 2 True) (example_logits 3) example_mask))
   \<and> (\<exists>p. decode example_env (example_model 0 False False ''kl'') (example_logits 3) example_mask
            = Inr (Pred2 p)
          \<and> nrow p = 1 \<and> ncol p = 2 \<and> at2 p 0 0 = 1 \<and> at2 p 0 1 = 1)
   \<and> argmax_last (softmax (example_logits 3)) = argmax_last (example_logits 3)
   \<and> crf (init example_env example_labels (EncoderInstance example_encoder) 0 True False 2
            ''kl'' (1 / 2) True) = Some (PartialCRF 2 True)"
proof -
  note crf_inst = decode_optional_crf [where m = "example_model 0 True False ''kl''"
      and c = "CRF 2 True" and env = example_env and logits = "example_logits 3"
      and mask' = example_mask and id_to_label' = example_labels
      and encoder' = "EncoderInstance example_encoder" and word_dropout = 0 and use_crf' = True
      and multiview' = False and temperature' = 2 and mv_loss_type' = "''kl''"
      and mv_interpolation' = "1 / 2" and partial = True]
  note argmax_inst = decode_optional_crf [where m = "example_model 0 False False ''kl''"
      and c = "CRF 2 True" and env = example_env and logits = "example_logits 3"
      and mask' = example_mask and id_to_label' = example_labels
      and encoder' = "EncoderInstance example_encoder" and word_dropout = 0 and use_crf' = True
      and multiview' = False and temperature' = 2 and mv_loss_type' = "''kl''"
      and mv_interpolation' = "1 / 2" and partial = True]
  have first: "decode example_env (example_model 0 True False ''kl'') (example_logits 3)
                 example_mask
               = Inr (squeeze0 (crf_decode example_env (CRF 2 True) (example_logits 3)
                        example_mask))"
    and last: "crf (init example_env example_labels (EncoderInstance example_encoder) 0 True
                      False 2 ''kl'' (1 / 2) True) = Some (PartialCRF 2 True)"
    using crf_inst by (simp_all add: example_fields example_card)
  have nocrf: "\<not> use_crf (example_model 0 False False ''kl'')"
    by (simp add: example_fields)
  have dims: "nfeat (example_logits 3) = 2" "nbatch (example_logits 3) = 1"
    "nseq (example_logits 3) = 2" and at: "\<And>i j k. at3 (example_logits 3) i j k = 3 + real k"
    by (simp_all add: example_logits_def)
  then have pos: "0 < nfeat (example_logits 3)"
    by simp
  from argmax_inst nocrf pos obtain p where
    p: "decode example_env (example_model 0 False False ''kl'') (example_logits 3) example_mask
          = Inr (Pred2 p)"
    and shape': "nrow p = nbatch (example_logits 3)" "ncol p = nseq (example_logits 3)"
    and props: "\<forall>i j. 0 \<le> at2 p i j \<and> at2 p i j < int (nfeat (example_logits 3))
                  \<and> (\<forall>k<nfeat (example_logits 3).
                        at3 (example_logits 3) i j k
                          \<le> at3 (example_logits 3) i j (nat (at2 p i j)))
                  \<and> (\<forall>k<nat (at2 p i j).
                        at3 (example_logits 3) i j k
                          < at3 (example_logits 3) i j (nat (at2 p i j)))"
    and soft: "argmax_last (softmax (example_logits 3)) = argmax_last (example_logits 3)"
    by blast
  have shape: "nrow p = 1" "ncol p = 2"
    using shape' by (simp_all add: dims)
  have one: "at2 p i j = 1" for i j
  proof -
    from props have "0 \<le> at2 p i j" and "at2 p i j < 2"
      and "at3 (example_logits 3) i j 1 \<le> at3 (example_logits 3) i j (nat (at2 p i j))"
      by (simp_all add: dims)
    then show ?thesis
      by (simp add: at)
  qed
  from p shape one [of 0 0] one [of 0 1] soft first last show ?thesis by blast
qed

text \<open>
  C5. In a multiview training step with loss type \<open>kl\<close>, on two views of the same shape
  with a mask of that shape, \<open>_calculate_cl_loss\<close> is the consistency loss as the
  specification words it (\<open>spec_consistency_kl\<close>): the Kullback-Leibler terms of the
  origin view's log-softmax against the augmented view's softmax at temperature \<open>T\<close>,
  masked per token and position, times \<open>T\<close> squared, summed, divided by the batch size.
  The temperature is not 0 and the batch is not empty: there the floating-point result
  is not a number.
\<close>

theorem cl_loss_is_masked_kl:
  assumes "multiview m" and "mv_loss_type m = ''kl''"
    and "nbatch origin = nbatch ext" and "nseq origin = nseq ext" and "nfeat origin = nfeat ext"
    and "nrow mask' = nbatch ext" and "ncol mask' = nseq ext"
    and "T \<noteq> 0" and "0 < nbatch ext"
  shows "u_calculate_cl_loss env m ext origin mask' T = Inr (spec_consistency_kl ext origin mask' T)"
proof -
  obtain r where r: "masked_kl origin ext mask' T = Inr r"
    and dims: "nbatch r = nbatch ext" "nseq r = nseq ext" "nfeat r = nfeat ext"
    and entries: "\<forall>i<nbatch ext. \<forall>j<nseq ext. \<forall>k<nfeat ext.
                 at3 r i j k =
                   (let p = exp (at3 ext i j k / T) / (\<Sum>c<nfeat ext. exp (at3 ext i j c / T));
                        log_q = at3 origin i j k / T
                                - ln (\<Sum>c<nfeat origin. exp (at3 origin i j c / T))
                    in p * (ln p - log_q) * real_of_int (at2 mask' i j) * T\<^sup>2)"
    using masked_kl_same_shape [OF assms(3-7), of T] by blast
  have "sum3 r = (\<Sum>b<nbatch ext. \<Sum>l<nseq ext. \<Sum>c<nfeat ext.
        (let p = exp (at3 ext b l c / T) / (\<Sum>c'<nfeat ext. exp (at3 ext b l c' / T));
             log_q = at3 origin b l c / T - ln (\<Sum>c'<nfeat origin. exp (at3 origin b l c' / T))
         in p * (ln p - log_q) * real_of_int (at2 mask' b l) * T\<^sup>2))"
    unfolding sum3_def dims
    by (intro sum.cong refl) (use entries in simp)
  then show ?thesis
    using assms(1,2) r
    by (simp add: u_calculate_cl_loss_def detach_def spec_consistency_kl_def Let_def)
qed

theorem cl_loss_is_masked_kl_witness:
  "u_calculate_cl_loss example_env (example_model 0 True True ''kl'') (example_logits 3)
     (example_logits 4) example_mask 2
   = Inr (spec_consistency_kl (example_logits 3) (example_logits 4) example_mask 2)"
  by (rule cl_loss_is_masked_kl)
     (simp_all add: example_fields example_logits_def example_mask_def)

text \<open>
  C6. When word dropout is in use, \<open>_forward\<close> applies it to the encoder's embeddings
  and projects the result; otherwise it projects the embeddings as the encoder returned
  them. The constructor puts dropout in use exactly for a rate above 0, so at the
  default rate 0.0 there is no dropout module and the embeddings reach the linear
  projection unchanged.
\<close>

theorem word_dropout_before_projection:
  "(use_dropout m \<longrightarrow> dropout m = Some d \<longrightarrow>
      u_forward env m tokens
        = Linear_call (linear m) (WordDropout_call env d (encode (encoder m) tokens)))
   \<and> (\<not> use_dropout m \<longrightarrow>
        u_forward env m tokens = Linear_call (linear m) (encode (encoder m) tokens))
   \<and> use_dropout (init env id_to_label' encoder' word_dropout use_crf' multiview' temperature'
                     mv_loss_type' mv_interpolation' partial) = (word_dropout > 0)
   \<and> dropout (init env id_to_label' encoder' word_dropout use_crf' multiview' temperature'
                 mv_loss_type' mv_interpolation' partial)
       = (if word_dropout > 0 then Some (WordDropout word_dropout) else None)
   \<and> dropout (init env id_to_label' encoder' default_word_dropout use_crf' multiview'
                 temperature' mv_loss_type' mv_interpolation' partial) = None
   \<and> u_forward env (init env id_to_label' encoder' default_word_dropout use_crf' multiview'
                       temperature' mv_loss_type' mv_interpolation' partial) tokens
       = Linear_call
           (linear (init env id_to_label' encoder' default_word_dropout use_crf' multiview'
                      temperature' mv_loss_type' mv_interpolation' partial))
           (encode (encoder (init env id_to_label' encoder' default_word_dropout use_crf'
                               multiview' temperature' mv_loss_type' mv_interpolation' partial))
              tokens)"
  by (simp add: u_forward_def init_def Let_def default_word_dropout_def)

theorem word_dropout_before_projection_witness:
  "u_forward example_env (example_model (1 / 10) True False ''kl'') 3
     = Linear_call (linear (example_model (1 / 10) True False ''kl''))
         (WordDropout_call example_env (WordDropout (1 / 10))
            (encode (encoder (example_model (1 / 10) True False ''kl'')) 3))
   \<and> u_forward example_env (example_model 0 True False ''kl'') 3
     = Linear_call (linear (example_model 0 True False ''kl''))
         (encode (encoder (example_model 0 True False ''kl'')) 3)"
  using word_dropout_before_projection [where m = "example_model (1 / 10) True False ''kl''"
      and d = "WordDropout (1 / 10)" and env = example_env and tokens = 3]
    word_dropout_before_projection [where m = "example_model 0 True False ''kl''"
      and d = "WordDropout (1 / 10)" and env = example_env and tokens = 3]
  by (simp add: example_model_def init_def Let_def)

text \<open>
  C7. In a constructed model the number of labels is the size of \<open>id_to_label\<close>, and the
  linear layer goes from the encoder's hidden size to the number of labels: it maps
  every batch of embeddings of the hidden size to logits of the same batch and sequence
  dimensions whose last dimension is the number of labels, and so do all logits that
  \<open>_forward\<close> returns.
\<close>

theorem linear_projection_shape:
  assumes "m = init env id_to_label' encoder' word_dropout use_crf' multiview' temperature'
                 mv_loss_type' mv_interpolation' partial"
  shows "num_labels m = card (dom id_to_label')
       \<and> in_features (linear m) = hidden_size (encoder m)
       \<and> out_features (linear m) = num_labels m
       \<and> (nfeat x = hidden_size (encoder m) \<longrightarrow>
            (\<exists>y. Linear_call (linear m) x = Inr y
                \<and> nbatch y = nbatch x \<and> nseq y = nseq x \<and> nfeat y = num_labels m))
       \<and> (u_forward env m tokens = Inr logits \<longrightarrow> nfeat logits = card (dom id_to_label'))"
  unfolding assms
  by (auto simp: init_def Let_def nn_Linear_def Linear_call_def u_forward_def
      split: if_splits option.splits)

theorem linear_projection_shape_witness:
  "num_labels (example_model 0 True False ''kl'') = card (dom example_labels)
   \<and> card (dom example_labels) = 2
   \<and> nfeat (encode example_encoder 3) = hidden_size (encoder (example_model 0 True False ''kl''))
   \<and> (\<exists>y. Linear_call (linear (example_model 0 True False ''kl'')) (encode example_encoder 3)
             = Inr y \<and> nfeat y = 2)
   \<and> u_forward example_env (example_model 0 True False ''kl'') 3 = Inr (example_logits 3)
   \<and> nfeat (example_logits 3) = card (dom example_labels)"
  using linear_projection_shape [where m = "example_model 0 True False ''kl''"
      and env = example_env and x = "encode example_encoder 3" and tokens = 3
      and logits = "example_logits 3", OF example_model_def]
  by (simp add: example_u_forward example_card example_fields)
     (simp add: example_model_def init_def Let_def example_encoder_def nn_Linear_def
        Linear_call_def example_card example_logits_def)

text \<open>
  C8. In a loss computation with the CRF, on targets and a mask of one shape, the targets
  that reach the CRF are the entrywise 64-bit product of the label ids and the mask. At
  every masked-out position the CRF therefore receives the target 0, whatever label id
  (a padding id included) is stored there, and 0 is a label index of a model that has
  a label; at a position where the mask is 1 it receives the label id itself.
\<close>

theorem crf_targets_masked:
  assumes "use_crf m" and "crf m = Some c"
    and "nrow targets = nrow mask'" and "ncol targets = ncol mask'"
  shows "\<exists>targets'. mul2 targets mask' = Inr targets'
           \<and> u_calculate_loss env m logits (Some targets) mask'
               = Inr (- crf_call env c logits targets' ''mean'' mask')
           \<and> nrow targets' = nrow mask' \<and> ncol targets' = ncol mask'
           \<and> (\<forall>i<nrow mask'. \<forall>j<ncol mask'.
                 at2 targets' i j = wrap64 (at2 targets i j * at2 mask' i j)
                 \<and> (at2 mask' i j = 0 \<longrightarrow>
                      at2 targets' i j = 0
                      \<and> (0 < num_labels m \<longrightarrow>
                           0 \<le> at2 targets' i j \<and> at2 targets' i j < int (num_labels m)))
                 \<and> (at2 mask' i j = 1 \<longrightarrow>
                      - (2 ^ 63) \<le> at2 targets i j \<longrightarrow> at2 targets i j < 2 ^ 63 \<longrightarrow>
                      at2 targets' i j = at2 targets i j))"
  using assms
  by (simp add: u_calculate_loss_def mul2_def broadcast2_def bdim_same bidx_in_range
      wrap64_zero wrap64_in_range)

theorem crf_targets_masked_witness:
  "\<exists>targets'. mul2 example_label_ids example_mask = Inr targets'
      \<and> u_calculate_loss example_env (example_model 0 True False ''kl'') (example_logits 3)
            (Some example_label_ids) example_mask
          = Inr (- crf_call example_env (CRF 2 True) (example_logits 3) targets' ''mean''
                     example_mask)
      \<and> at2 example_label_ids 0 1 = - 100
      \<and> at2 example_mask 0 1 = 0
      \<and> at2 targets' 0 1 = 0
      \<and> at2 targets' 0 1 < int (num_labels (example_model 0 True False ''kl''))
      \<and> at2 example_mask 0 0 = 1
      \<and> at2 targets' 0 0 = at2 example_label_ids 0 0"
proof -
  let ?m = "example_model 0 True False ''kl''"
  have hyps: "use_crf ?m" "crf ?m = Some (CRF 2 True)"
    "nrow example_label_ids = nrow example_mask" "ncol example_label_ids = ncol example_mask"
    by (simp_all add: example_fields example_label_ids_def example_mask_def)
  from crf_targets_masked [OF hyps, of example_env "example_logits 3"]
  obtain targets' where t: "mul2 example_label_ids example_mask = Inr targets'"
    and l: "u_calculate_loss example_env ?m (example_logits 3) (Some example_label_ids)
              example_mask
            = Inr (- crf_call example_env (CRF 2 True) (example_logits 3) targets' ''mean''
                       example_mask)"
    and e: "\<forall>i<nrow example_mask. \<forall>j<ncol example_mask.
              at2 targets' i j = wrap64 (at2 example_label_ids i j * at2 example_mask i j)
              \<and> (at2 example_mask i j = 0 \<longrightarrow>
                   at2 targets' i j = 0
                   \<and> (0 < num_labels ?m \<longrightarrow>
                        0 \<le> at2 targets' i j \<and> at2 targets' i j < int (num_labels ?m)))
              \<and> (at2 example_mask i j = 1 \<longrightarrow>
                   - (2 ^ 63) \<le> at2 example_label_ids i j \<longrightarrow>
                   at2 example_label_ids i j < 2 ^ 63 \<longrightarrow>
                   at2 targets' i j = at2 example_label_ids i j)"
    by blast
  have facts: "(0::nat) < nrow example_mask" "(0::nat) < ncol example_mask"
    "(1::nat) < ncol example_mask"
    "at2 example_mask 0 1 = 0" "at2 example_mask 0 0 = 1" "0 < num_labels ?m"
    "at2 example_label_ids 0 1 = - 100"
    "- (2 ^ 63) \<le> at2 example_label_ids 0 0" "at2 example_label_ids 0 0 < 2 ^ 63"
    by (simp_all add: example_mask_def example_fields example_label_ids_def)
  from e facts have "at2 targets' 0 1 = 0"
    and "at2 targets' 0 1 < int (num_labels ?m)"
    and "at2 targets' 0 0 = at2 example_label_ids 0 0"
    by blast+
  with facts t l show ?thesis
    by blast
qed

text \<open>
  C9. In training mode with multiview enabled, when no origin tokens are given or the
  loss type is neither \<open>kl\<close> nor \<open>crf_kl\<close>, \<open>forward\<close> adds no consistency term and
  never raises NotImplementedError. It is not free of every error: it returns exactly
  when the logits and the loss of the augmented view are computed and, if origin tokens
  are given, the logits and the loss of the origin view are computed too, and a loss
  needs \<open>label_ids\<close>. What it returns is then the loss of the augmented view alone; the
  loss of the origin view is dropped.
\<close>

theorem forward_primary_loss_only:
  assumes "training m" and "multiview m"
    and "origin_tokens = None \<or> (mv_loss_type m \<noteq> ''kl'' \<and> mv_loss_type m \<noteq> ''crf_kl'')"
  shows "(forward env m tokens label_ids meta origin_tokens origin_mask = Inr outputs
          \<longleftrightarrow>
          (\<exists>logits loss.
             u_forward env m tokens = Inr logits
           \<and> u_calculate_loss env m logits label_ids
                (case origin_mask of Some om \<Rightarrow> om
                 | None \<Rightarrow> get_tokens_mask env tokens (nseq logits)) = Inr loss
           \<and> (\<forall>ot. origin_tokens = Some ot \<longrightarrow>
                 (\<exists>origin_view_logits origin_view_loss.
                    u_forward env m ot = Inr origin_view_logits
                  \<and> u_calculate_loss env m origin_view_logits label_ids
                       (get_tokens_mask env ot (nseq origin_view_logits)) = Inr origin_view_loss))
           \<and> outputs = [''logits'' \<mapsto> Logits logits, ''loss'' \<mapsto> Loss loss]))
         \<and> forward env m tokens label_ids meta origin_tokens origin_mask \<noteq> Inl NotImplementedError"
  using assms u_forward_not_nie [of env m] u_calculate_loss_not_nie [of env m]
  by (auto simp: forward_def Let_def split: sum.splits option.splits)

theorem forward_primary_loss_only_witness:
  "forward example_env (example_model 0 True True ''kl'') 3 (Some example_label_ids)
       (None :: unit option) None None
     = Inr [''logits'' \<mapsto> Logits (example_logits 3), ''loss'' \<mapsto> Loss 3]
   \<and> forward example_env (example_model 0 True True ''other'') 3 (Some example_label_ids)
       (None :: unit option) (Some 4) None
     = Inr [''logits'' \<mapsto> Logits (example_logits 3), ''loss'' \<mapsto> Loss 3]"
proof
  let ?m = "example_model 0 True True ''kl''"
  show "forward example_env ?m 3 (Some example_label_ids) (None :: unit option) None None
          = Inr [''logits'' \<mapsto> Logits (example_logits 3), ''loss'' \<mapsto> Loss 3]"
    by (rule iffD2 [OF conjunct1 [OF forward_primary_loss_only
                         [of ?m None example_env 3 "Some example_label_ids" None None]]])
       (simp_all add: example_fields example_u_forward example_get_tokens_mask example_loss_crf)
next
  let ?m = "example_model 0 True True ''other''"
  show "forward example_env ?m 3 (Some example_label_ids) (None :: unit option) (Some 4) None
          = Inr [''logits'' \<mapsto> Logits (example_logits 3), ''loss'' \<mapsto> Loss 3]"
    by (rule iffD2 [OF conjunct1 [OF forward_primary_loss_only
                         [of ?m "Some 4" example_env 3 "Some example_label_ids" None None]]])
       (simp_all add: example_fields example_u_forward example_get_tokens_mask example_loss_crf)
qed

text \<open>
  A call in the conditions of C9 that raises: without \<open>label_ids\<close> (the default of the
  signature) there are no targets for the loss of the augmented view.
\<close>

theorem forward_primary_loss_only_counterexample:
  "training (example_model 0 True True ''kl'')
   \<and> multiview (example_model 0 True True ''kl'')
   \<and> forward example_env (example_model 0 True True ''kl'') 3 None (None :: unit option)
         None None = Inl TypeError"
  by (simp add: forward_def example_u_forward example_get_tokens_mask example_fields
      u_calculate_loss_def)




end
